theory Spec2Isabelle
  imports Main
begin

section \<open>Python values and literal expressions\<close>

text \<open>
  The module \<^verbatim>\<open>pelicanconf.py\<close> is a sequence of top-level assignments whose right-hand
  sides are literal displays: strings, the integers 24 and 8, \<^verbatim>\<open>True\<close>, \<^verbatim>\<open>None\<close>,
  lists, tuples and dicts. Python is dynamically typed, so every value lives in one type.
  A string is the list of its code points; all code points of the file are below 256
  (the copyright sign is U+00A9). A dict is an association list in insertion order.
\<close>

datatype pyval =
    PStr string
  | PInt int
  | PBool bool
  | PNone
  | PList "pyval list"
  | PTuple "pyval list"
  | PDict "(pyval \<times> pyval) list"

datatype expr =
    EStr string
  | EInt int
  | EBool bool
  | ENone
  | EList "expr list"
  | ETuple "expr list"
  | EDict "(expr \<times> expr) list"

text \<open>The only exception a literal display can raise: an unhashable dict key.\<close>

datatype error = TypeError

fun hashable :: "pyval \<Rightarrow> bool" where
  "hashable (PList xs) = False"
| "hashable (PDict d) = False"
| "hashable (PTuple xs) = list_all hashable xs"
| "hashable v = True"

text \<open>
  Equality of dict keys, which are hashable values: \<^verbatim>\<open>True == 1\<close> and
  \<^verbatim>\<open>False == 0\<close>, tuples by component, everything else by value.
\<close>

fun py_eq :: "pyval \<Rightarrow> pyval \<Rightarrow> bool" where
  "py_eq (PInt i) (PBool b) = (i = (if b then 1 else 0))"
| "py_eq (PBool b) (PInt i) = (i = (if b then 1 else 0))"
| "py_eq (PTuple xs) (PTuple ys) = list_all2 py_eq xs ys"
| "py_eq v w = (v = w)"

text \<open>
  Storing into a dict: an equal key keeps its place and its key object and takes the new
  value; a new key goes to the end.
\<close>

fun dict_set :: "pyval \<Rightarrow> pyval \<Rightarrow> (pyval \<times> pyval) list \<Rightarrow> (pyval \<times> pyval) list" where
  "dict_set k v [] = [(k, v)]"
| "dict_set k v ((k', v') # d) =
     (if py_eq k' k then (k', v) # d else (k', v') # dict_set k v d)"

function eval_expr :: "expr \<Rightarrow> error + pyval"
  and eval_exprs :: "expr list \<Rightarrow> error + pyval list"
  and eval_items :: "(expr \<times> expr) list \<Rightarrow> (pyval \<times> pyval) list \<Rightarrow> error + (pyval \<times> pyval) list"
where
  "eval_expr (EStr s) = Inr (PStr s)"
| "eval_expr (EInt i) = Inr (PInt i)"
| "eval_expr (EBool b) = Inr (PBool b)"
| "eval_expr ENone = Inr PNone"
| "eval_expr (EList es) =
     (case eval_exprs es of Inl x \<Rightarrow> Inl x | Inr vs \<Rightarrow> Inr (PList vs))"
| "eval_expr (ETuple es) =
     (case eval_exprs es of Inl x \<Rightarrow> Inl x | Inr vs \<Rightarrow> Inr (PTuple vs))"
| "eval_expr (EDict its) =
     (case eval_items its [] of Inl x \<Rightarrow> Inl x | Inr d \<Rightarrow> Inr (PDict d))"
| "eval_exprs [] = Inr []"
| "eval_exprs (e # es) =
     (case eval_expr e of
        Inl x \<Rightarrow> Inl x
      | Inr v \<Rightarrow> (case eval_exprs es of Inl x \<Rightarrow> Inl x | Inr vs \<Rightarrow> Inr (v # vs)))"
| "eval_items [] d = Inr d"
| "eval_items ((ke, ve) # its) d =
     (case eval_expr ke of
        Inl x \<Rightarrow> Inl x
      | Inr k \<Rightarrow>
          (case eval_expr ve of
             Inl x \<Rightarrow> Inl x
           | Inr v \<Rightarrow> if hashable k then eval_items its (dict_set k v d) else Inl TypeError))"
  by pat_completeness auto
termination
  by (relation "measure (\<lambda>x. case x of
          Inl e \<Rightarrow> size e
        | Inr (Inl es) \<Rightarrow> size_list size es
        | Inr (Inr (its, d)) \<Rightarrow> size_list (size_prod size size) its)") auto

section \<open>Statements and the module namespace\<close>

text \<open>
  Every statement of the file is an assignment \<^verbatim>\<open>NAME = literal\<close>. The namespace of the
  module is a dict with string keys; an assignment stores into it.
\<close>

datatype stmt = Assign string expr

type_synonym namespace = "(string \<times> pyval) list"

fun target :: "stmt \<Rightarrow> string" where
  "target (Assign n e) = n"

fun rhs :: "stmt \<Rightarrow> expr" where
  "rhs (Assign n e) = e"

fun ns_set :: "string \<Rightarrow> pyval \<Rightarrow> namespace \<Rightarrow> namespace" where
  "ns_set n v [] = [(n, v)]"
| "ns_set n v ((n', v') # ns) =
     (if n' = n then (n', v) # ns else (n', v') # ns_set n v ns)"

fun ns_get :: "namespace \<Rightarrow> string \<Rightarrow> pyval option" where
  "ns_get [] n = None"
| "ns_get ((n', v') # ns) n = (if n' = n then Some v' else ns_get ns n)"

fun exec_stmt :: "stmt \<Rightarrow> namespace \<Rightarrow> error + namespace" where
  "exec_stmt (Assign n e) ns =
     (case eval_expr e of Inl x \<Rightarrow> Inl x | Inr v \<Rightarrow> Inr (ns_set n v ns))"

fun exec :: "stmt list \<Rightarrow> namespace \<Rightarrow> error + namespace" where
  "exec [] ns = Inr ns"
| "exec (s # ss) ns =
     (case exec_stmt s ns of Inl x \<Rightarrow> Inl x | Inr ns' \<Rightarrow> exec ss ns')"

section \<open>The module pelicanconf\<close>

definition SUBTEXT_text :: string where
  "SUBTEXT_text =
     ''I'm an aspiring programmer. '' @ [CHR 0x0A] @
     ''This blog documents the knowledge and insights I gather along the way, sharing my progress and discoveries on the road to dev.'' @ [CHR 0x0A] @
     ''Written with the help of GPT.'' @ [CHR 0x0A]"

definition pelicanconf :: "stmt list" where
  "pelicanconf =
    [Assign ''AUTHOR'' (EStr ''Leon Ramzews''),
     Assign ''SITENAME'' (EStr ''Road to Dev''),
     Assign ''SITEURL'' (EStr ''http://127.0.0.1:8000''),
     Assign ''TIMEZONE'' (EStr ''Europe/Berlin''),
     Assign ''DEFAULT_LANG'' (EStr ''en''),
     Assign ''SUBTITLE'' (EStr ''Hey, my name is Leon.''),
     Assign ''SUBTEXT'' (EStr SUBTEXT_text),
     Assign ''COPYRIGHT'' (EStr (CHR 0xA9 # ''2024'')),
     Assign ''PATH'' (EStr ''content''),
     Assign ''THEME'' (EStr ''themes/Papyrus''),
     Assign ''THEME_STATIC_PATHS'' (EList [EStr ''static'']),
     Assign ''PLUGIN_PATHS'' (EList [EStr ''pelican-plugins'']),
     Assign ''PLUGINS'' (EList [EStr ''pelican-toc'']),
     Assign ''STATIC_PATHS''
       (EList [EStr ''images'', EStr ''images/favicon.ico'', EStr ''extra/robots.txt'']),
     Assign ''EXTRA_PATH_METADATA''
       (EDict [(EStr ''extra/robots.txt'', EDict [(EStr ''path'', EStr ''robots.txt'')]),
               (EStr ''images/favicon.ico'', EDict [(EStr ''path'', EStr ''favicon.ico'')])]),
     Assign ''DISPLAY_PAGES_ON_MENU'' (EBool True),
     Assign ''DIRECT_TEMPLATES''
       (ETuple [EStr ''index'', EStr ''tags'', EStr ''categories'', EStr ''archives'']),
     Assign ''PAGINATED_TEMPLATES''
       (EDict [(EStr ''index'', ENone), (EStr ''tag'', ENone), (EStr ''category'', ENone),
               (EStr ''author'', ENone), (EStr ''archives'', EInt 24)]),
     Assign ''TOC''
       (EDict [(EStr ''TOC_HEADERS'', EStr ''^h[1-3]''),
               (EStr ''TOC_RUN'', EStr ''true''),
               (EStr ''TOC_INCLUDE_TITLE'', EStr ''false'')]),
     Assign ''FEED_ALL_ATOM'' (EStr ''feeds/all.atom.xml''),
     Assign ''CATEGORY_FEED_ATOM'' ENone,
     Assign ''TRANSLATION_FEED_ATOM'' ENone,
     Assign ''AUTHOR_FEED_ATOM'' ENone,
     Assign ''AUTHOR_FEED_RSS'' ENone,
     Assign ''RSS_FEED_SUMMARY_ONLY'' (EBool True),
     Assign ''SHARE''
       (ETuple
         [ETuple [EStr ''twitter'',
                  EStr ''https://twitter.com/intent/tweet/?text=Features&amp;url=''],
          ETuple [EStr ''linkedin'',
                  EStr ''https://www.linkedin.com/sharing/share-offsite/?url=''],
          ETuple [EStr ''reddit'', EStr ''https://reddit.com/submit?url=''],
          ETuple [EStr ''facebook'', EStr ''https://facebook.com/sharer/sharer.php?u=''],
          ETuple [EStr ''whatsapp'', EStr ''https://api.whatsapp.com/send?text=Features - ''],
          ETuple [EStr ''telegram'',
                  EStr ''https://telegram.me/share/url?text=Features&amp;url='']]),
     Assign ''DEFAULT_PAGINATION'' (EInt 8)]"

text \<open>
  Loading the module runs its statements on a namespace; \<open>settings\<close> is the run on the
  empty one, and \<open>setting\<close> reads one name from the result.
\<close>

definition settings :: "error + namespace" where
  "settings = exec pelicanconf []"

definition setting :: "string \<Rightarrow> pyval option" where
  "setting n = (case settings of Inl x \<Rightarrow> None | Inr ns \<Rightarrow> ns_get ns n)"

text \<open>The values the file declares, written out: the fixed record of the module.\<close>

definition settings_record :: namespace where
  "settings_record =
    [(''AUTHOR'', PStr ''Leon Ramzews''),
     (''SITENAME'', PStr ''Road to Dev''),
     (''SITEURL'', PStr ''http://127.0.0.1:8000''),
     (''TIMEZONE'', PStr ''Europe/Berlin''),
     (''DEFAULT_LANG'', PStr ''en''),
     (''SUBTITLE'', PStr ''Hey, my name is Leon.''),
     (''SUBTEXT'', PStr SUBTEXT_text),
     (''COPYRIGHT'', PStr (CHR 0xA9 # ''2024'')),
     (''PATH'', PStr ''content''),
     (''THEME'', PStr ''themes/Papyrus''),
     (''THEME_STATIC_PATHS'', PList [PStr ''static'']),
     (''PLUGIN_PATHS'', PList [PStr ''pelican-plugins'']),
     (''PLUGINS'', PList [PStr ''pelican-toc'']),
     (''STATIC_PATHS'',
       PList [PStr ''images'', PStr ''images/favicon.ico'', PStr ''extra/robots.txt'']),
     (''EXTRA_PATH_METADATA'',
       PDict [(PStr ''extra/robots.txt'', PDict [(PStr ''path'', PStr ''robots.txt'')]),
              (PStr ''images/favicon.ico'', PDict [(PStr ''path'', PStr ''favicon.ico'')])]),
     (''DISPLAY_PAGES_ON_MENU'', PBool True),
     (''DIRECT_TEMPLATES'',
       PTuple [PStr ''index'', PStr ''tags'', PStr ''categories'', PStr ''archives'']),
     (''PAGINATED_TEMPLATES'',
       PDict [(PStr ''index'', PNone), (PStr ''tag'', PNone), (PStr ''category'', PNone),
              (PStr ''author'', PNone), (PStr ''archives'', PInt 24)]),
     (''TOC'',
       PDict [(PStr ''TOC_HEADERS'', PStr ''^h[1-3]''),
              (PStr ''TOC_RUN'', PStr ''true''),
              (PStr ''TOC_INCLUDE_TITLE'', PStr ''false'')]),
     (''FEED_ALL_ATOM'', PStr ''feeds/all.atom.xml''),
     (''CATEGORY_FEED_ATOM'', PNone),
     (''TRANSLATION_FEED_ATOM'', PNone),
     (''AUTHOR_FEED_ATOM'', PNone),
     (''AUTHOR_FEED_RSS'', PNone),
     (''RSS_FEED_SUMMARY_ONLY'', PBool True),
     (''SHARE'',
       PTuple
         [PTuple [PStr ''twitter'',
                  PStr ''https://twitter.com/intent/tweet/?text=Features&amp;url=''],
          PTuple [PStr ''linkedin'',
                  PStr ''https://www.linkedin.com/sharing/share-offsite/?url=''],
          PTuple [PStr ''reddit'', PStr ''https://reddit.com/submit?url=''],
          PTuple [PStr ''facebook'', PStr ''https://facebook.com/sharer/sharer.php?u=''],
          PTuple [PStr ''whatsapp'', PStr ''https://api.whatsapp.com/send?text=Features - ''],
          PTuple [PStr ''telegram'',
                  PStr ''https://telegram.me/share/url?text=Features&amp;url='']]),
     (''DEFAULT_PAGINATION'', PInt 8)]"

subsection \<open>The settings the properties speak about\<close>

definition STATIC_PATHS :: "pyval option" where
  "STATIC_PATHS = setting ''STATIC_PATHS''"

definition EXTRA_PATH_METADATA :: "pyval option" where
  "EXTRA_PATH_METADATA = setting ''EXTRA_PATH_METADATA''"

definition PAGINATED_TEMPLATES :: "pyval option" where
  "PAGINATED_TEMPLATES = setting ''PAGINATED_TEMPLATES''"

definition FEED_ALL_ATOM :: "pyval option" where
  "FEED_ALL_ATOM = setting ''FEED_ALL_ATOM''"

definition CATEGORY_FEED_ATOM :: "pyval option" where
  "CATEGORY_FEED_ATOM = setting ''CATEGORY_FEED_ATOM''"

definition TRANSLATION_FEED_ATOM :: "pyval option" where
  "TRANSLATION_FEED_ATOM = setting ''TRANSLATION_FEED_ATOM''"

definition AUTHOR_FEED_ATOM :: "pyval option" where
  "AUTHOR_FEED_ATOM = setting ''AUTHOR_FEED_ATOM''"

definition AUTHOR_FEED_RSS :: "pyval option" where
  "AUTHOR_FEED_RSS = setting ''AUTHOR_FEED_RSS''"

definition RSS_FEED_SUMMARY_ONLY :: "pyval option" where
  "RSS_FEED_SUMMARY_ONLY = setting ''RSS_FEED_SUMMARY_ONLY''"

definition SHARE :: "pyval option" where
  "SHARE = setting ''SHARE''"

definition DEFAULT_PAGINATION :: "pyval option" where
  "DEFAULT_PAGINATION = setting ''DEFAULT_PAGINATION''"

section \<open>Predicates of the properties\<close>

subsection \<open>Dynamic types\<close>

fun is_str :: "pyval \<Rightarrow> bool" where
  "is_str (PStr s) = True"
| "is_str v = False"

fun is_int :: "pyval \<Rightarrow> bool" where
  "is_int (PInt i) = True"
| "is_int v = False"

fun is_bool :: "pyval \<Rightarrow> bool" where
  "is_bool (PBool b) = True"
| "is_bool v = False"

fun is_none :: "pyval \<Rightarrow> bool" where
  "is_none PNone = True"
| "is_none v = False"

text \<open>A property of a setting holds when the name is bound and its value has it.\<close>

fun holds :: "(pyval \<Rightarrow> bool) \<Rightarrow> pyval option \<Rightarrow> bool" where
  "holds P None = False"
| "holds P (Some v) = P v"

subsection \<open>Share entries and URL templates\<close>

text \<open>
  A share template is the front part of a URL, to which a theme appends the address of
  the article. Well-formed is read as in RFC 3986: the scheme is \<^verbatim>\<open>http\<close> or
  \<^verbatim>\<open>https\<close>, followed by \<^verbatim>\<open>://\<close> and a non-empty host, and every character is
  unreserved, reserved (a general or sub-delimiter) or the percent sign.
\<close>

definition uri_char :: "char \<Rightarrow> bool" where
  "uri_char c \<longleftrightarrow>
     c \<in> set ''abcdefghijklmnopqrstuvwxyz'' \<or>
     c \<in> set ''ABCDEFGHIJKLMNOPQRSTUVWXYZ'' \<or>
     c \<in> set ''0123456789'' \<or>
     c \<in> set ''-._~'' \<or>
     c \<in> set '':/?#[]@'' \<or>
     c \<in> set (''!$&()*+,;='' @ [CHR 0x27]) \<or>
     c = CHR ''%''"

definition url_scheme_ok :: "string \<Rightarrow> bool" where
  "url_scheme_ok u \<longleftrightarrow> take 8 u = ''https://'' \<or> take 7 u = ''http://''"

definition url_host :: "string \<Rightarrow> string" where
  "url_host u = takeWhile (\<lambda>c. c \<notin> set ''/?#'') (drop 3 (dropWhile (\<lambda>c. c \<noteq> CHR '':'') u))"

definition well_formed_url_template :: "string \<Rightarrow> bool" where
  "well_formed_url_template u \<longleftrightarrow> url_scheme_ok u \<and> url_host u \<noteq> [] \<and> list_all uri_char u"

fun share_entry_ok :: "pyval \<Rightarrow> bool" where
  "share_entry_ok (PTuple [PStr n, PStr u]) = (n \<noteq> [] \<and> well_formed_url_template u)"
| "share_entry_ok v = False"

fun share_ok :: "pyval \<Rightarrow> bool" where
  "share_ok (PTuple xs) = list_all share_entry_ok xs"
| "share_ok v = False"

text \<open>
  What the entries of the file do satisfy: the same shape, with the space character
  admitted in the template of the whatsapp entry only.
\<close>

fun share_entry_shape :: "pyval \<Rightarrow> bool" where
  "share_entry_shape (PTuple [PStr n, PStr u]) =
     (n \<noteq> [] \<and> url_scheme_ok u \<and> url_host u \<noteq> [] \<and>
      list_all (\<lambda>c. uri_char c \<or> c = CHR '' '') u \<and>
      (list_all uri_char u \<or> n = ''whatsapp''))"
| "share_entry_shape v = False"

subsection \<open>Feeds\<close>

text \<open>The per-type feed path settings of the file; a feed is enabled by a path, disabled by \<^verbatim>\<open>None\<close>.\<close>

definition feed_path_settings :: "string list" where
  "feed_path_settings =
     [''FEED_ALL_ATOM'', ''CATEGORY_FEED_ATOM'', ''TRANSLATION_FEED_ATOM'',
      ''AUTHOR_FEED_ATOM'', ''AUTHOR_FEED_RSS'']"

definition enabled_feeds :: "string list" where
  "enabled_feeds = filter (\<lambda>n. holds is_str (setting n)) feed_path_settings"

subsection \<open>Writing a record back as a module\<close>

text \<open>
  Modelled from the spec: the emitter of the round trip is not part of the source. Re-emitting
  the settings record writes, for every key in order, one assignment of the literal display
  that denotes the key's value; reading the emitted module is running it, as for the file.
\<close>

primrec expr_of :: "pyval \<Rightarrow> expr" where
  "expr_of (PStr s) = EStr s"
| "expr_of (PInt i) = EInt i"
| "expr_of (PBool b) = EBool b"
| "expr_of PNone = ENone"
| "expr_of (PList xs) = EList (map expr_of xs)"
| "expr_of (PTuple xs) = ETuple (map expr_of xs)"
| "expr_of (PDict d) = EDict (map (map_prod expr_of expr_of) d)"

definition emit :: "namespace \<Rightarrow> stmt list" where
  "emit r = map (\<lambda>(n, v). Assign n (expr_of v)) r"

definition parse :: "stmt list \<Rightarrow> error + namespace" where
  "parse m = exec m []"

section \<open>Facts about running a module\<close>

lemma ns_get_ns_set: "ns_get (ns_set n v ns) k = (if k = n then Some v else ns_get ns k)"
  by (induction ns) auto

lemma exec_append:
  "exec (xs @ ys) ns = (case exec xs ns of Inl x \<Rightarrow> Inl x | Inr ns' \<Rightarrow> exec ys ns')"
  by (induction xs arbitrary: ns) (auto split: sum.splits)

lemma exec_untouched:
  "exec p ns = Inr r \<Longrightarrow> k \<notin> target ` set p \<Longrightarrow> ns_get r k = ns_get ns k"
proof (induction p arbitrary: ns)
  case Nil
  then show ?case by simp
next
  case (Cons s ss)
  obtain n e where s: "s = Assign n e" by (cases s)
  from Cons.prems(1) s obtain v where v: "eval_expr e = Inr v"
    and rest: "exec ss (ns_set n v ns) = Inr r"
    by (auto split: sum.splits)
  from Cons.prems(2) s have "k \<noteq> n" and "k \<notin> target ` set ss" by auto
  with Cons.IH [OF rest] show ?case by (simp add: ns_get_ns_set)
qed

lemma exec_input_independent:
  "exec p ns = Inr r \<Longrightarrow> exec p ns' = Inr r' \<Longrightarrow> k \<in> target ` set p \<Longrightarrow>
   ns_get r k = ns_get r' k"
proof (induction p arbitrary: ns ns')
  case Nil
  then show ?case by simp
next
  case (Cons s ss)
  obtain n e where s: "s = Assign n e" by (cases s)
  from Cons.prems(1) s obtain v where v: "eval_expr e = Inr v"
    and rest: "exec ss (ns_set n v ns) = Inr r"
    by (auto split: sum.splits)
  from Cons.prems(2) s v have rest': "exec ss (ns_set n v ns') = Inr r'"
    by simp
  show ?case
  proof (cases "k \<in> target ` set ss")
    case True
    from Cons.IH [OF rest rest' True] show ?thesis .
  next
    case False
    with Cons.prems(3) s have "k = n" by auto
    with exec_untouched [OF rest False] exec_untouched [OF rest' False]
    show ?thesis by (simp add: ns_get_ns_set)
  qed
qed

lemma exec_total:
  "list_all (\<lambda>s. \<exists>v. eval_expr (rhs s) = Inr v) p \<Longrightarrow> \<exists>r. exec p ns = Inr r"
proof (induction p arbitrary: ns)
  case Nil
  then show ?case by simp
next
  case (Cons s ss)
  obtain n e where s: "s = Assign n e" by (cases s)
  from Cons.prems s obtain v where v: "eval_expr e = Inr v" by auto
  from Cons.prems have "list_all (\<lambda>s. \<exists>v. eval_expr (rhs s) = Inr v) ss" by simp
  from Cons.IH [OF this, of "ns_set n v ns"] s v show ?case by simp
qed

lemma take_split: "i \<le> j \<Longrightarrow> take j xs = take i xs @ drop i (take j xs)"
  using append_take_drop_id [of i "take j xs"] by (simp add: min_def)

lemma exec_prefix_kept:
  assumes d: "distinct (map target p)" and ij: "i \<le> j"
    and a: "exec (take i p) ns = Inr a" and b: "exec (take j p) ns = Inr b"
    and k: "k \<in> target ` set (take i p)"
  shows "ns_get b k = ns_get a k"
proof -
  let ?mid = "drop i (take j p)"
  have split: "take j p = take i p @ ?mid" by (rule take_split [OF ij])
  from b have "exec (take i p @ ?mid) ns = Inr b" using split by simp
  with a have mid: "exec ?mid a = Inr b" by (simp add: exec_append)
  from d have "distinct (take j (map target p))" by (rule distinct_take)
  then have "distinct (map target (take j p))" by (simp add: take_map)
  then have "distinct (map target (take i p @ ?mid))" using split by simp
  with k have "k \<notin> target ` set ?mid" by auto
  from exec_untouched [OF mid this] show ?thesis .
qed

lemma exec_fresh_bound:
  "exec p [] = Inr a \<Longrightarrow> ns_get a k = Some v \<Longrightarrow> k \<in> target ` set p"
proof (rule ccontr)
  assume a: "exec p [] = Inr a" and kv: "ns_get a k = Some v" and "k \<notin> target ` set p"
  from exec_untouched [OF a this(3)] kv show False by simp
qed

subsection \<open>The run of the file\<close>

lemma pelicanconf_targets_distinct: "distinct (map target pelicanconf)"
  unfolding pelicanconf_def by simp

lemma pelicanconf_literals_evaluate:
  "list_all (\<lambda>s. \<exists>v. eval_expr (rhs s) = Inr v) pelicanconf"
  unfolding pelicanconf_def by simp

lemma exec_pelicanconf: "exec pelicanconf [] = Inr settings_record"
  unfolding pelicanconf_def settings_record_def by simp

lemma settings_value: "settings = Inr settings_record"
  unfolding settings_def by (rule exec_pelicanconf)

lemma setting_value: "setting n = ns_get settings_record n"
  unfolding setting_def by (simp add: settings_value)

section \<open>Properties of the configuration\<close>

text \<open>
  C1: every value of the pagination mapping \<^verbatim>\<open>PAGINATED_TEMPLATES\<close> is an integer or
  \<^verbatim>\<open>None\<close>, never a string, and the default page size \<^verbatim>\<open>DEFAULT_PAGINATION\<close> is an
  integer. The values are four times \<^verbatim>\<open>None\<close> and 24; the default is 8.
\<close>

theorem pagination_values_int_or_none:
  "\<exists>d i. PAGINATED_TEMPLATES = Some (PDict d) \<and>
     list_all (\<lambda>v. (is_int v \<or> is_none v) \<and> \<not> is_str v) (map snd d) \<and>
     map snd d = [PNone, PNone, PNone, PNone, PInt 24] \<and>
     DEFAULT_PAGINATION = Some (PInt i) \<and> i = 8"
  unfolding PAGINATED_TEMPLATES_def DEFAULT_PAGINATION_def
  by (simp add: setting_value settings_record_def)

text \<open>
  C2, as stated: every element of \<^verbatim>\<open>SHARE\<close> is a pair of a non-empty platform name and
  a well-formed URL template. This fails at the whatsapp entry, whose template
  \<^verbatim>\<open>https://api.whatsapp.com/send?text=Features - \<close> contains spaces, and a space is not
  a character of a URL.
\<close>

theorem share_whatsapp_template_not_well_formed:
  "SHARE \<noteq> None \<and> \<not> holds share_ok SHARE \<and>
   \<not> well_formed_url_template ''https://api.whatsapp.com/send?text=Features - '' \<and>
   \<not> uri_char (CHR '' '')"
  unfolding SHARE_def
  by (simp add: setting_value settings_record_def well_formed_url_template_def uri_char_def)

text \<open>
  C2, amended: \<^verbatim>\<open>SHARE\<close> is a tuple of six pairs; in each, the first component is a
  non-empty platform name and the second is a string that starts with \<^verbatim>\<open>https://\<close> (or
  \<^verbatim>\<open>http://\<close>) and a non-empty host, and consists of URL characters only, except that
  the template of the whatsapp entry also contains spaces.
\<close>

theorem share_entries_shape:
  "\<exists>xs. SHARE = Some (PTuple xs) \<and> length xs = 6 \<and> list_all share_entry_shape xs"
  unfolding SHARE_def
  by (simp add: setting_value settings_record_def url_scheme_ok_def url_host_def uri_char_def)

text \<open>
  C4: reading the file into its settings record, writing the record back as a module and
  reading that module again gives the same record: \<open>parse (emit r) = r\<close> for the record
  \<open>r\<close> of this file.
\<close>

theorem roundtrip_settings_record:
  "\<exists>r. parse pelicanconf = Inr r \<and> parse (emit r) = Inr r"
  unfolding parse_def
  by (simp add: exec_pelicanconf) (simp add: emit_def settings_record_def)

text \<open>
  C5: each of \<^verbatim>\<open>FEED_ALL_ATOM\<close>, \<^verbatim>\<open>CATEGORY_FEED_ATOM\<close>, \<^verbatim>\<open>TRANSLATION_FEED_ATOM\<close>,
  \<^verbatim>\<open>AUTHOR_FEED_ATOM\<close> and \<^verbatim>\<open>AUTHOR_FEED_RSS\<close> is a path string or \<^verbatim>\<open>None\<close>, and
  \<^verbatim>\<open>RSS_FEED_SUMMARY_ONLY\<close> is a boolean.
\<close>

theorem feed_settings_types:
  "holds (\<lambda>v. is_str v \<or> is_none v) FEED_ALL_ATOM \<and>
   holds (\<lambda>v. is_str v \<or> is_none v) CATEGORY_FEED_ATOM \<and>
   holds (\<lambda>v. is_str v \<or> is_none v) TRANSLATION_FEED_ATOM \<and>
   holds (\<lambda>v. is_str v \<or> is_none v) AUTHOR_FEED_ATOM \<and>
   holds (\<lambda>v. is_str v \<or> is_none v) AUTHOR_FEED_RSS \<and>
   holds is_bool RSS_FEED_SUMMARY_ONLY"
  unfolding FEED_ALL_ATOM_def CATEGORY_FEED_ATOM_def TRANSLATION_FEED_ATOM_def
    AUTHOR_FEED_ATOM_def AUTHOR_FEED_RSS_def RSS_FEED_SUMMARY_ONLY_def
  by (simp add: setting_value settings_record_def)

text \<open>
  C6: the record is immutable after being read. Every name of the module is the target of
  exactly one assignment, and a name bound to a value after some statements of the file is
  bound to the same value after any further statements: nothing rebinds, deletes or
  changes it.
\<close>

theorem keys_bound_once_and_kept:
  "distinct (map target pelicanconf) \<and>
   (\<forall>i j a b k v. i \<le> j \<and>
      exec (take i pelicanconf) [] = Inr a \<and> exec (take j pelicanconf) [] = Inr b \<and>
      ns_get a k = Some v \<longrightarrow> ns_get b k = Some v)"
proof (intro conjI allI impI)
  show "distinct (map target pelicanconf)" by (rule pelicanconf_targets_distinct)
next
  fix i j a b k v
  assume h: "i \<le> j \<and>
      exec (take i pelicanconf) [] = Inr a \<and> exec (take j pelicanconf) [] = Inr b \<and>
      ns_get a k = Some v"
  then have ij: "i \<le> j" and a: "exec (take i pelicanconf) [] = Inr a"
    and b: "exec (take j pelicanconf) [] = Inr b" and kv: "ns_get a k = Some v"
    by blast+
  from exec_prefix_kept [OF pelicanconf_targets_distinct ij a b exec_fresh_bound [OF a kv]] kv
  show "ns_get b k = Some v" by simp
qed

text \<open>
  The property at work: \<^verbatim>\<open>AUTHOR\<close>, bound by the first statement, holds the same value
  after all twenty-seven.
\<close>

theorem keys_bound_once_and_kept_witness:
  "(1::nat) \<le> 27 \<and>
   exec (take 1 pelicanconf) [] = Inr [(''AUTHOR'', PStr ''Leon Ramzews'')] \<and>
   exec (take 27 pelicanconf) [] = Inr settings_record \<and>
   ns_get [(''AUTHOR'', PStr ''Leon Ramzews'')] ''AUTHOR'' = Some (PStr ''Leon Ramzews'') \<and>
   ns_get settings_record ''AUTHOR'' = Some (PStr ''Leon Ramzews'')"
proof -
  have len: "length pelicanconf = 27" unfolding pelicanconf_def by simp
  have a: "exec (take 1 pelicanconf) [] = Inr [(''AUTHOR'', PStr ''Leon Ramzews'')]"
    unfolding pelicanconf_def by simp
  have b: "exec (take 27 pelicanconf) [] = Inr settings_record"
    using exec_pelicanconf len by simp
  have g: "ns_get [(''AUTHOR'', PStr ''Leon Ramzews'')] ''AUTHOR'' = Some (PStr ''Leon Ramzews'')"
    by simp
  have ij: "(1::nat) \<le> 27" by simp
  have h: "(1::nat) \<le> 27 \<and>
      exec (take 1 pelicanconf) [] = Inr [(''AUTHOR'', PStr ''Leon Ramzews'')] \<and>
      exec (take 27 pelicanconf) [] = Inr settings_record \<and>
      ns_get [(''AUTHOR'', PStr ''Leon Ramzews'')] ''AUTHOR'' = Some (PStr ''Leon Ramzews'')"
    by (intro conjI ij a b g)
  have r: "ns_get settings_record ''AUTHOR'' = Some (PStr ''Leon Ramzews'')"
    by (rule keys_bound_once_and_kept [THEN conjunct2, rule_format, OF h])
  show ?thesis by (intro conjI ij a b g r)
qed

text \<open>
  C7: evaluating the module cannot fail. The right-hand side of every assignment evaluates
  to a value, and the run of the whole file returns a namespace from every starting
  namespace; no path reaches the error.
\<close>

theorem module_never_fails:
  "list_all (\<lambda>s. \<exists>v. eval_expr (rhs s) = Inr v) pelicanconf \<and>
   (\<forall>ns. \<exists>r. exec pelicanconf ns = Inr r)"
proof (intro conjI allI)
  show "list_all (\<lambda>s. \<exists>v. eval_expr (rhs s) = Inr v) pelicanconf"
    by (rule pelicanconf_literals_evaluate)
next
  fix ns
  show "\<exists>r. exec pelicanconf ns = Inr r"
    by (rule exec_total [OF pelicanconf_literals_evaluate])
qed

text \<open>
  C8: evaluation is deterministic and independent of its input. The run on the empty
  namespace gives the fixed literal record, and the run from any other starting namespace
  binds every name of the file to the same value as that record.
\<close>

theorem module_deterministic:
  "exec pelicanconf [] = Inr settings_record \<and>
   (\<forall>ns. \<exists>r. exec pelicanconf ns = Inr r \<and>
      map (ns_get r) (map target pelicanconf) =
      map (ns_get settings_record) (map target pelicanconf))"
proof (intro conjI allI)
  show "exec pelicanconf [] = Inr settings_record" by (rule exec_pelicanconf)
next
  fix ns
  obtain r where r: "exec pelicanconf ns = Inr r"
    using exec_total [OF pelicanconf_literals_evaluate] by blast
  have "ns_get r k = ns_get settings_record k" if "k \<in> target ` set pelicanconf" for k
    using exec_input_independent [OF r exec_pelicanconf that] .
  then have "map (ns_get r) (map target pelicanconf) =
      map (ns_get settings_record) (map target pelicanconf)"
    by simp
  with r show "\<exists>r. exec pelicanconf ns = Inr r \<and>
      map (ns_get r) (map target pelicanconf) =
      map (ns_get settings_record) (map target pelicanconf)"
    by (intro exI conjI)
qed

text \<open>
  C9: every key of \<^verbatim>\<open>EXTRA_PATH_METADATA\<close>, that is \<^verbatim>\<open>extra/robots.txt\<close> and
  \<^verbatim>\<open>images/favicon.ico\<close>, is an element of the list \<^verbatim>\<open>STATIC_PATHS\<close>.
\<close>

theorem extra_path_metadata_keys_static:
  "\<exists>d xs. EXTRA_PATH_METADATA = Some (PDict d) \<and> STATIC_PATHS = Some (PList xs) \<and>
     map fst d = [PStr ''extra/robots.txt'', PStr ''images/favicon.ico''] \<and>
     set (map fst d) \<subseteq> set xs"
  unfolding EXTRA_PATH_METADATA_def STATIC_PATHS_def
  by (simp add: setting_value settings_record_def)

text \<open>
  C10: exactly one feed is enabled. \<^verbatim>\<open>FEED_ALL_ATOM\<close> is the path
  \<^verbatim>\<open>feeds/all.atom.xml\<close>; \<^verbatim>\<open>CATEGORY_FEED_ATOM\<close>, \<^verbatim>\<open>TRANSLATION_FEED_ATOM\<close>,
  \<^verbatim>\<open>AUTHOR_FEED_ATOM\<close> and \<^verbatim>\<open>AUTHOR_FEED_RSS\<close> are \<^verbatim>\<open>None\<close>.
\<close>

theorem one_feed_enabled:
  "FEED_ALL_ATOM = Some (PStr ''feeds/all.atom.xml'') \<and>
   CATEGORY_FEED_ATOM = Some PNone \<and> TRANSLATION_FEED_ATOM = Some PNone \<and>
   AUTHOR_FEED_ATOM = Some PNone \<and> AUTHOR_FEED_RSS = Some PNone \<and>
   enabled_feeds = [''FEED_ALL_ATOM'']"
  unfolding FEED_ALL_ATOM_def CATEGORY_FEED_ATOM_def TRANSLATION_FEED_ATOM_def
    AUTHOR_FEED_ATOM_def AUTHOR_FEED_RSS_def enabled_feeds_def feed_path_settings_def
  by (simp add: setting_value settings_record_def)

end
